theory Spec2Isabelle
  imports Complex_Main
begin

section \<open>The API client: \<open>apiRequest\<close> (frontend utils/api.ts)\<close>

text \<open>
  \<open>apiRequest(endpoint, options)\<close> builds the headers, adds the JWT from
  \<open>localStorage\<close> when authentication is required, calls \<open>fetch\<close> and treats a 401.
  The browser objects the function touches are made explicit: \<open>localStorage\<close> is a map
  from keys to strings, \<open>window.location.href\<close> a string, and the console the list of
  errors written to it with \<open>console.error\<close>. \<open>fetch\<close> is a parameter: for a URL and
  the request it either rejects (a network error) or resolves with a response.
\<close>

record response =
  status :: int
  payload :: string

text \<open>
  The two errors that can leave \<open>apiRequest\<close>: the \<open>Error\<close> it throws itself on a 401
  (its message says that the authentication has expired and asks to log in again), and
  whatever \<open>fetch\<close> rejected with.
\<close>

datatype api_error = AuthExpired | FetchRejected string

text \<open>
  \<open>RequestOptions extends RequestInit\<close>: \<open>requireAuth\<close> and \<open>headers\<close> are taken out
  by the destructuring, with the defaults \<open>true\<close> and \<open>{}\<close>; the rest
  (\<open>restOptions\<close>) is passed on to \<open>fetch\<close>. Only the members the callers in this file
  set (\<open>method\<close>, \<open>body\<close>) are kept of \<open>RequestInit\<close>, and \<open>headers\<close> is a plain
  object from header names to strings.
\<close>

record request_options =
  requireAuth :: "bool option"
  headers :: "(string \<rightharpoonup> string) option"
  http_method :: "string option"
  http_body :: "string option"

record fetch_init =
  init_method :: "string option"
  init_body :: "string option"
  init_headers :: "string \<rightharpoonup> string"

record browser =
  localStorage :: "string \<rightharpoonup> string"
  location_href :: string
  console_errors :: "api_error list"

type_synonym fetch_fn = "string \<Rightarrow> fetch_init \<Rightarrow> api_error + response"

definition removeItem :: "string \<Rightarrow> browser \<Rightarrow> browser" where
  "removeItem k b = b\<lparr>localStorage := (localStorage b)(k := None)\<rparr>"

text \<open>\<open>if (token)\<close>: \<open>getItem\<close> gives \<open>null\<close> for a missing key, and the empty string is falsy too.\<close>

definition truthy :: "string option \<Rightarrow> bool" where
  "truthy t = (case t of None \<Rightarrow> False | Some s \<Rightarrow> s \<noteq> [])"

text \<open>
  \<open>{ 'Content-Type': 'application/json', ...headers }\<close>, then the \<open>Authorization\<close>
  member when authentication is required and a token is stored.
\<close>

definition build_headers :: "browser \<Rightarrow> bool \<Rightarrow> (string \<rightharpoonup> string) \<Rightarrow> (string \<rightharpoonup> string)" where
  "build_headers b auth hs =
     (let defaultHeaders = [''Content-Type'' \<mapsto> ''application/json''] ++ hs;
          token = localStorage b ''access_token''
      in if auth \<and> truthy token
         then defaultHeaders(''Authorization'' \<mapsto> ''Bearer '' @ the token)
         else defaultHeaders)"

text \<open>\<open>endpoint.startsWith('http') ? endpoint : `${API_BASE_URL}${endpoint}`\<close>\<close>

definition build_url :: "string \<Rightarrow> string \<Rightarrow> string" where
  "build_url api_base_url endpoint =
     (if take 4 endpoint = ''http'' then endpoint else api_base_url @ endpoint)"

text \<open>
  The body of \<open>apiRequest\<close>. The \<open>throw\<close> of the 401 branch stands inside the
  \<open>try\<close>, so it is caught like a rejection of \<open>fetch\<close>: the \<open>catch\<close> block writes
  the error to the console and throws it again. The result is the error or the response,
  together with the browser state afterwards.
\<close>

definition apiRequest ::
  "string \<Rightarrow> fetch_fn \<Rightarrow> string \<Rightarrow> request_options \<Rightarrow> browser \<Rightarrow> (api_error + response) \<times> browser" where
  "apiRequest api_base_url fetch endpoint options b =
     (let auth = (case requireAuth options of None \<Rightarrow> True | Some a \<Rightarrow> a);
          hs = (case headers options of None \<Rightarrow> Map.empty | Some h \<Rightarrow> h);
          defaultHeaders = build_headers b auth hs;
          url = build_url api_base_url endpoint
      in case fetch url \<lparr>init_method = http_method options, init_body = http_body options,
                          init_headers = defaultHeaders\<rparr> of
           Inl err \<Rightarrow> (Inl err, b\<lparr>console_errors := console_errors b @ [err]\<rparr>)
         | Inr resp \<Rightarrow>
             if status resp = 401 \<and> auth then
               (let b1 = removeItem ''access_token'' b;
                    b2 = removeItem ''user'' b1;
                    b3 = b2\<lparr>location_href := ''/login''\<rparr>
                in (Inl AuthExpired, b3\<lparr>console_errors := console_errors b3 @ [AuthExpired]\<rparr>))
             else (Inr resp, b))"

text \<open>What \<open>fetch\<close> is called with, for the statements below.\<close>

definition fetch_result :: "string \<Rightarrow> fetch_fn \<Rightarrow> string \<Rightarrow> request_options \<Rightarrow> browser \<Rightarrow> api_error + response" where
  "fetch_result api_base_url fetch endpoint options b =
     fetch (build_url api_base_url endpoint)
       \<lparr>init_method = http_method options, init_body = http_body options,
        init_headers = build_headers b
          (case requireAuth options of None \<Rightarrow> True | Some a \<Rightarrow> a)
          (case headers options of None \<Rightarrow> Map.empty | Some h \<Rightarrow> h)\<rparr>"

definition auth_required :: "request_options \<Rightarrow> bool" where
  "auth_required options = (requireAuth options \<noteq> Some False)"

section \<open>The automation page: \<open>AutomationDashboard\<close>\<close>

text \<open>
  The component holds two booleans in React state, both initially \<open>false\<close>. Each of the
  two switches has one handler: \<open>() => setAutomationActive(!automationActive)\<close> and
  \<open>() => setAutonomousMonitoring(!autonomousMonitoring)\<close>. The component imports React's
  \<open>useState\<close> and icons only: it has no \<open>useEffect\<close> and does not import the API client.
  A handler is modelled with everything it could do: the next component state and the
  list of HTTP requests it sends. The backend is a value of any type that changes only
  through a request that reaches it.
\<close>

record dashboard =
  automationActive :: bool
  autonomousMonitoring :: bool

datatype click = PumpAutomationSwitch | AutonomousAgentSwitch

record http_request =
  req_endpoint :: string
  req_options :: request_options

definition initial_dashboard :: dashboard where
  "initial_dashboard = \<lparr>automationActive = False, autonomousMonitoring = False\<rparr>"

definition onClick :: "click \<Rightarrow> dashboard \<Rightarrow> dashboard \<times> http_request list" where
  "onClick c d =
     (case c of
        PumpAutomationSwitch \<Rightarrow> (d\<lparr>automationActive := \<not> automationActive d\<rparr>, [])
      | AutonomousAgentSwitch \<Rightarrow> (d\<lparr>autonomousMonitoring := \<not> autonomousMonitoring d\<rparr>, []))"

text \<open>
  The labels the component renders. The source's texts are Korean; the constructors name
  them by meaning: the pump card shows "activated" or "deactivated", the agent card
  "monitoring" or "waiting", and the combined card "fully active", "partly active" or
  "inactive".
\<close>

datatype pump_label = Activated | Deactivated
datatype agent_label = Monitoring | Waiting
datatype combined_label = FullyActive | PartlyActive | Inactive

record rendering =
  pump_status :: pump_label
  agent_status :: agent_label
  combined_status :: combined_label

definition render :: "dashboard \<Rightarrow> rendering" where
  "render d =
     \<lparr>pump_status = (if automationActive d then Activated else Deactivated),
      agent_status = (if autonomousMonitoring d then Monitoring else Waiting),
      combined_status =
        (if automationActive d \<and> autonomousMonitoring d then FullyActive
         else if automationActive d \<or> autonomousMonitoring d then PartlyActive
         else Inactive)\<rparr>"

text \<open>
  A page session: the component state, the backend, and the requests sent so far. A click
  runs the handler; each request the handler sends is delivered to the backend by
  \<open>serve\<close>, which is any function.
\<close>

record 'b page =
  ui :: dashboard
  backend :: 'b
  sent :: "http_request list"

definition click_step :: "(http_request \<Rightarrow> 'b \<Rightarrow> 'b) \<Rightarrow> 'b page \<Rightarrow> click \<Rightarrow> 'b page" where
  "click_step serve p c =
     (let (d, reqs) = onClick c (ui p)
      in \<lparr>ui = d, backend = fold serve reqs (backend p), sent = sent p @ reqs\<rparr>)"

definition clicks :: "(http_request \<Rightarrow> 'b \<Rightarrow> 'b) \<Rightarrow> 'b page \<Rightarrow> click list \<Rightarrow> 'b page" where
  "clicks serve p cs = foldl (click_step serve) p cs"

section \<open>ControlPolicy: the hysteresis state machine of a pump\<close>

text \<open>
  Modelled from the spec: the pump control of this repository
  (\<open>services/autonomous_agent.py\<close>) is not among the sources; only the quick reference
  to its prompt is, which gives the two rules for the first reservoir: level below 40,
  pump ON; level above 80, pump OFF. The definitions of this section follow section 4.3
  of the specification word by word: two states per pump, a configuration of
  \<open>low_threshold\<close>, \<open>high_threshold\<close> and \<open>cooldown_seconds\<close>, the transition
  OFF to ON when the level is below \<open>low_threshold\<close> and the cooldown has elapsed
  since the last toggle, the transition ON to OFF when the level is above
  \<open>high_threshold\<close> and the cooldown has elapsed, and the three results of an
  evaluation: a \<open>PumpCommand\<close> (the state changed), \<open>no-op\<close> (no change needed) or
  \<open>blocked\<close> (a change is needed and the cooldown prevents it).

  Times are seconds on the real line. The time of an evaluation is an argument of its
  own: the specification lets the readings and the evaluation times vary independently.
  The forecast is an argument because the interface has it; the two reactive rules do
  not read it, and the optional anticipatory rule, which the specification wants as a
  code path of its own, is not part of this function.
\<close>

type_synonym pump_id = string

datatype pump_state = OFF | ON

record Reading =
  reservoir_id :: string
  timestamp :: real
  level :: real
  pump_states :: "pump_id \<rightharpoonup> bool"

datatype trend_label = Rising | Falling | Stable

record ForecastResult =
  forecast_reservoir_id :: string
  as_of :: real
  horizon_minutes :: real
  predicted_level :: real
  confidence :: real
  trend :: trend_label

record PumpCommand =
  pump_id :: pump_id
  action :: pump_state
  duration_seconds :: "real option"
  issued_at :: real

record PumpConfig =
  low_threshold :: real
  high_threshold :: real
  cooldown_seconds :: real

text \<open>
  The automation state the decision loop keeps for one pump: the state of the machine
  and the time of the last toggle, if there was one.
\<close>

record PumpStatus =
  state :: pump_state
  last_toggle :: "real option"

datatype evaluation = Command PumpCommand | NoOp | Blocked

text \<open>
  Modelled from the spec: "cooldown has elapsed since last toggle" (the code of the
  control policy is missing). A pump that was never toggled has no cooldown to wait for;
  after a toggle at \<open>t\<close> the cooldown has elapsed from \<open>t + cooldown_seconds\<close> on.
\<close>

definition cooldown_elapsed :: "PumpConfig \<Rightarrow> PumpStatus \<Rightarrow> real \<Rightarrow> bool" where
  "cooldown_elapsed cfg st now =
     (case last_toggle st of None \<Rightarrow> True | Some t \<Rightarrow> cooldown_seconds cfg \<le> now - t)"

text \<open>
  Modelled from the spec: the two transition rules without their cooldown part (the code
  of the control policy is missing). An OFF pump needs a change when the level is below
  \<open>low_threshold\<close>, an ON pump when the level is above \<open>high_threshold\<close>.
\<close>

definition change_needed :: "PumpConfig \<Rightarrow> PumpStatus \<Rightarrow> real \<Rightarrow> bool" where
  "change_needed cfg st lvl =
     (case state st of OFF \<Rightarrow> lvl < low_threshold cfg | ON \<Rightarrow> high_threshold cfg < lvl)"

definition toggled :: "pump_state \<Rightarrow> pump_state" where
  "toggled s = (case s of OFF \<Rightarrow> ON | ON \<Rightarrow> OFF)"

text \<open>
  Modelled from the spec: one evaluation of one pump (the code of
  \<open>ControlPolicy.evaluate\<close> is missing). No change needed: \<open>no-op\<close>. A change
  needed and the cooldown not elapsed: \<open>blocked\<close>. Otherwise the pump is toggled, the
  time of the toggle is recorded, and the command carries the new state and the time of
  the evaluation.
\<close>

definition evaluate_pump ::
  "PumpConfig \<Rightarrow> pump_id \<Rightarrow> real \<Rightarrow> Reading \<Rightarrow> ForecastResult option \<Rightarrow> PumpStatus
     \<Rightarrow> evaluation \<times> PumpStatus" where
  "evaluate_pump cfg pid now reading forecast st =
     (if \<not> change_needed cfg st (level reading) then (NoOp, st)
      else if \<not> cooldown_elapsed cfg st now then (Blocked, st)
      else (Command \<lparr>pump_id = pid, action = toggled (state st),
                      duration_seconds = None, issued_at = now\<rparr>,
            \<lparr>state = toggled (state st), last_toggle = Some now\<rparr>))"

text \<open>
  Modelled from the spec: the policy over all pumps (its code is missing).
  The policy holds the configuration and the automation state of every pump;
  \<open>evaluate\<close> is \<open>ControlPolicy.evaluate(pump_id, reading, forecast)\<close> at the time
  \<open>now\<close> and touches the state of that pump only.
\<close>

record ControlPolicy =
  config :: "pump_id \<Rightarrow> PumpConfig"
  pumps :: "pump_id \<Rightarrow> PumpStatus"

record evaluation_request =
  for_pump :: pump_id
  at_time :: real
  reading :: Reading
  forecast :: "ForecastResult option"

definition evaluate :: "ControlPolicy \<Rightarrow> evaluation_request \<Rightarrow> evaluation \<times> ControlPolicy" where
  "evaluate pol rq =
     (let (res, st) = evaluate_pump (config pol (for_pump rq)) (for_pump rq) (at_time rq)
                        (reading rq) (forecast rq) (pumps pol (for_pump rq))
      in (res, pol\<lparr>pumps := (pumps pol)(for_pump rq := st)\<rparr>))"

text \<open>Feeding a sequence of evaluations to the policy, one after the other.\<close>

fun run :: "ControlPolicy \<Rightarrow> evaluation_request list \<Rightarrow> evaluation list" where
  "run pol [] = []"
| "run pol (rq # rqs) = fst (evaluate pol rq) # run (snd (evaluate pol rq)) rqs"

fun commands :: "evaluation list \<Rightarrow> PumpCommand list" where
  "commands [] = []"
| "commands (Command c # es) = c # commands es"
| "commands (e # es) = commands es"





text \<open>
  Two commands are spaced when, if they are for the same pump and its cooldown is not
  negative, the second is issued at least the cooldown after the first.
\<close>

definition spaced :: "ControlPolicy \<Rightarrow> PumpCommand \<Rightarrow> PumpCommand \<Rightarrow> bool" where
  "spaced pol c1 c2 =
     (pump_id c1 = pump_id c2 \<and> 0 \<le> cooldown_seconds (config pol (pump_id c1))
        \<longrightarrow> issued_at c1 + cooldown_seconds (config pol (pump_id c1)) \<le> issued_at c2)"

section \<open>Concrete inputs\<close>

definition fetch0 :: fetch_fn where
  "fetch0 url init =
     (if url = ''http://localhost:5000/api/files''
      then Inr \<lparr>status = 401, payload = ''expired''\<rparr>
      else Inr \<lparr>status = 200, payload = ''ok''\<rparr>)"

definition browser0 :: browser where
  "browser0 =
     \<lparr>localStorage = [''access_token'' \<mapsto> ''jwt0'', ''user'' \<mapsto> ''kim'', ''theme'' \<mapsto> ''dark''],
      location_href = ''/'', console_errors = []\<rparr>"

definition options0 :: request_options where
  "options0 = \<lparr>requireAuth = None, headers = None, http_method = Some ''GET'', http_body = None\<rparr>"

definition page0 :: "nat page" where
  "page0 = \<lparr>ui = initial_dashboard, backend = 7, sent = []\<rparr>"

definition policy0 :: ControlPolicy where
  "policy0 =
     \<lparr>config = (\<lambda>p. \<lparr>low_threshold = 40, high_threshold = 80, cooldown_seconds = 60\<rparr>),
      pumps = (\<lambda>p. \<lparr>state = OFF, last_toggle = None\<rparr>)\<rparr>"

definition request0 :: "pump_id \<Rightarrow> real \<Rightarrow> real \<Rightarrow> evaluation_request" where
  "request0 p t l =
     \<lparr>for_pump = p, at_time = t,
      reading = \<lparr>reservoir_id = ''gagok'', timestamp = t, level = l, pump_states = Map.empty\<rparr>,
      forecast = None\<rparr>"

definition requests0 :: "evaluation_request list" where
  "requests0 = [request0 ''pump_a'' 0 30, request0 ''pump_b'' 10 35, request0 ''pump_a'' 30 90,
                request0 ''pump_a'' 70 90]"



section \<open>Properties of \<open>apiRequest\<close>\<close>

lemma apiRequest_unfold:
  "apiRequest base fetch endpoint options b =
     (case fetch_result base fetch endpoint options b of
        Inl err \<Rightarrow> (Inl err, b\<lparr>console_errors := console_errors b @ [err]\<rparr>)
      | Inr resp \<Rightarrow>
          if status resp = 401 \<and> auth_required options then
            (Inl AuthExpired,
             b\<lparr>localStorage := (localStorage b)(''access_token'' := None, ''user'' := None),
               location_href := ''/login'',
               console_errors := console_errors b @ [AuthExpired]\<rparr>)
          else (Inr resp, b))"
  by (cases "requireAuth options")
     (simp_all add: apiRequest_def fetch_result_def auth_required_def removeItem_def Let_def
        split: sum.splits)

text \<open>
  Claim C10. For every call of \<open>apiRequest\<close> with \<open>requireAuth\<close> true (given, or left
  to its default) in which \<open>fetch\<close> resolves with a response: if the status is 401, the
  call ends with the thrown error and not with the response, \<open>access_token\<close> and
  \<open>user\<close> are gone from \<open>localStorage\<close>, every other key is as before, and the
  location is \<open>/login\<close>; for every other status the caller gets exactly that response and
  the browser state is the one before the call.
\<close>

theorem apiRequest_401_or_response:
  assumes "auth_required options"
    and "fetch_result base fetch endpoint options b = Inr resp"
  shows "(status resp = 401 \<longrightarrow>
            fst (apiRequest base fetch endpoint options b) = Inl AuthExpired
          \<and> localStorage (snd (apiRequest base fetch endpoint options b)) ''access_token'' = None
          \<and> localStorage (snd (apiRequest base fetch endpoint options b)) ''user'' = None
          \<and> (\<forall>k. k \<noteq> ''access_token'' \<and> k \<noteq> ''user'' \<longrightarrow>
                localStorage (snd (apiRequest base fetch endpoint options b)) k = localStorage b k)
          \<and> location_href (snd (apiRequest base fetch endpoint options b)) = ''/login'')
       \<and> (status resp \<noteq> 401 \<longrightarrow>
            apiRequest base fetch endpoint options b = (Inr resp, b))"
  using assms by (simp add: apiRequest_unfold)

theorem apiRequest_401_or_response_witness:
  "auth_required options0
   \<and> fetch_result ''http://localhost:5000'' fetch0 ''/api/files'' options0 browser0
       = Inr \<lparr>status = 401, payload = ''expired''\<rparr>
   \<and> fst (apiRequest ''http://localhost:5000'' fetch0 ''/api/files'' options0 browser0) = Inl AuthExpired
   \<and> localStorage (snd (apiRequest ''http://localhost:5000'' fetch0 ''/api/files'' options0 browser0))
         ''access_token'' = None
   \<and> localStorage (snd (apiRequest ''http://localhost:5000'' fetch0 ''/api/files'' options0 browser0))
         ''user'' = None
   \<and> localStorage (snd (apiRequest ''http://localhost:5000'' fetch0 ''/api/files'' options0 browser0))
         ''theme'' = Some ''dark''
   \<and> location_href (snd (apiRequest ''http://localhost:5000'' fetch0 ''/api/files'' options0 browser0))
       = ''/login''
   \<and> fetch_result ''http://localhost:5000'' fetch0 ''/api/health'' options0 browser0
       = Inr \<lparr>status = 200, payload = ''ok''\<rparr>
   \<and> apiRequest ''http://localhost:5000'' fetch0 ''/api/health'' options0 browser0
       = (Inr \<lparr>status = 200, payload = ''ok''\<rparr>, browser0)"
proof -
  have a: "auth_required options0"
    by (simp add: auth_required_def options0_def)
  have f1: "fetch_result ''http://localhost:5000'' fetch0 ''/api/files'' options0 browser0
       = Inr \<lparr>status = 401, payload = ''expired''\<rparr>"
    by (simp add: fetch_result_def fetch0_def build_url_def)
  have f2: "fetch_result ''http://localhost:5000'' fetch0 ''/api/health'' options0 browser0
       = Inr \<lparr>status = 200, payload = ''ok''\<rparr>"
    by (simp add: fetch_result_def fetch0_def build_url_def)
  from apiRequest_401_or_response [OF a f1] apiRequest_401_or_response [OF a f2] a f1 f2
  show ?thesis by (simp add: browser0_def)
qed

section \<open>Properties of \<open>AutomationDashboard\<close>\<close>

lemma click_step_frame:
  "backend (click_step serve p c) = backend p \<and> sent (click_step serve p c) = sent p"
  by (cases c) (simp_all add: click_step_def onClick_def)

lemma clicks_frame:
  "backend (clicks serve p cs) = backend p \<and> sent (clicks serve p cs) = sent p"
  unfolding clicks_def
  by (induction cs arbitrary: p) (simp_all add: click_step_frame)

text \<open>
  Claim C9. A click on the pump automation switch negates \<open>automationActive\<close>, a click
  on the autonomous agent switch negates \<open>autonomousMonitoring\<close>; neither handler sends
  a request. So after any sequence of clicks the backend is the one before and no request
  has been added to those sent, whatever the backend does with a request. The two status
  labels are computed from the two booleans alone: "activated" exactly when
  \<open>automationActive\<close> holds, "monitoring" exactly when \<open>autonomousMonitoring\<close> holds.
\<close>

theorem toggles_flip_local_state_only:
  "onClick PumpAutomationSwitch d = (d\<lparr>automationActive := \<not> automationActive d\<rparr>, [])
   \<and> onClick AutonomousAgentSwitch d = (d\<lparr>autonomousMonitoring := \<not> autonomousMonitoring d\<rparr>, [])
   \<and> backend (clicks serve p cs) = backend p
   \<and> sent (clicks serve p cs) = sent p
   \<and> (pump_status (render (ui (clicks serve p cs))) = Activated)
       = automationActive (ui (clicks serve p cs))
   \<and> (agent_status (render (ui (clicks serve p cs))) = Monitoring)
       = autonomousMonitoring (ui (clicks serve p cs))"
  by (simp add: onClick_def clicks_frame render_def)

theorem toggles_flip_local_state_only_witness:
  "ui (clicks (\<lambda>r n. n + 1) page0 [PumpAutomationSwitch, AutonomousAgentSwitch, PumpAutomationSwitch])
     = \<lparr>automationActive = False, autonomousMonitoring = True\<rparr>
   \<and> backend (clicks (\<lambda>r n. n + 1) page0 [PumpAutomationSwitch, AutonomousAgentSwitch, PumpAutomationSwitch]) = 7
   \<and> sent (clicks (\<lambda>r n. n + 1) page0 [PumpAutomationSwitch, AutonomousAgentSwitch, PumpAutomationSwitch]) = []
   \<and> agent_status (render (ui (clicks (\<lambda>r n. n + 1) page0
        [PumpAutomationSwitch, AutonomousAgentSwitch, PumpAutomationSwitch]))) = Monitoring"
proof -
  have u: "ui (clicks (\<lambda>r n. n + 1) page0 [PumpAutomationSwitch, AutonomousAgentSwitch, PumpAutomationSwitch])
     = \<lparr>automationActive = False, autonomousMonitoring = True\<rparr>"
    by (simp add: clicks_def click_step_def onClick_def page0_def initial_dashboard_def)
  from toggles_flip_local_state_only
         [of _ "\<lambda>r n. n + 1" page0 "[PumpAutomationSwitch, AutonomousAgentSwitch, PumpAutomationSwitch]"] u
  show ?thesis by (simp add: page0_def)
qed

section \<open>Properties of ControlPolicy: the cooldown\<close>

lemma evaluate_fst:
  "fst (evaluate pol rq) =
     fst (evaluate_pump (config pol (for_pump rq)) (for_pump rq) (at_time rq) (reading rq)
            (forecast rq) (pumps pol (for_pump rq)))"
  by (simp add: evaluate_def split: prod.splits)

lemma evaluate_config: "config (snd (evaluate pol rq)) = config pol"
  by (simp add: evaluate_def split: prod.splits)

lemma evaluate_pumps:
  "pumps (snd (evaluate pol rq)) =
     (pumps pol)(for_pump rq :=
        snd (evaluate_pump (config pol (for_pump rq)) (for_pump rq) (at_time rq) (reading rq)
               (forecast rq) (pumps pol (for_pump rq))))"
  by (simp add: evaluate_def split: prod.splits)

text \<open>The three outcomes of one evaluation, with the condition of each.\<close>

lemma evaluate_pump_cases:
  "evaluate_pump cfg pid now rd fc st = (NoOp, st) \<and> \<not> change_needed cfg st (level rd)
   \<or> evaluate_pump cfg pid now rd fc st = (Blocked, st) \<and> change_needed cfg st (level rd)
       \<and> \<not> cooldown_elapsed cfg st now
   \<or> evaluate_pump cfg pid now rd fc st =
        (Command \<lparr>pump_id = pid, action = toggled (state st), duration_seconds = None, issued_at = now\<rparr>,
         \<lparr>state = toggled (state st), last_toggle = Some now\<rparr>)
       \<and> change_needed cfg st (level rd) \<and> cooldown_elapsed cfg st now"
  by (simp add: evaluate_pump_def)

text \<open>
  A command of a run for pump \<open>p\<close> is issued at least the cooldown after the last toggle
  of \<open>p\<close> before the run, when the cooldown is not negative.
\<close>

lemma commands_after_last_toggle:
  assumes "0 \<le> cooldown_seconds (config pol p)"
    and "last_toggle (pumps pol p) = Some t"
    and "c \<in> set (commands (run pol rqs))"
    and "pump_id c = p"
  shows "t + cooldown_seconds (config pol p) \<le> issued_at c"
  using assms
proof (induction rqs arbitrary: pol t)
  case Nil
  then show ?case by simp
next
  case (Cons rq rqs)
  let ?q = "for_pump rq"
  let ?pol' = "snd (evaluate pol rq)"
  let ?ev = "evaluate_pump (config pol ?q) ?q (at_time rq) (reading rq) (forecast rq) (pumps pol ?q)"
  have cfg: "config ?pol' = config pol" by (rule evaluate_config)
  consider (quiet) "snd ?ev = pumps pol ?q" "\<forall>c. fst ?ev \<noteq> Command c"
    | (cmd) "?ev = (Command \<lparr>pump_id = ?q, action = toggled (state (pumps pol ?q)),
                       duration_seconds = None, issued_at = at_time rq\<rparr>,
                    \<lparr>state = toggled (state (pumps pol ?q)), last_toggle = Some (at_time rq)\<rparr>)"
            "cooldown_elapsed (config pol ?q) (pumps pol ?q) (at_time rq)"
    using evaluate_pump_cases [of "config pol ?q" ?q "at_time rq" "reading rq" "forecast rq" "pumps pol ?q"]
    by auto
  then show ?case
  proof cases
    case quiet
    have same: "pumps ?pol' = pumps pol"
      by (simp add: evaluate_pumps quiet(1))
    from quiet(2) have "commands (run pol (rq # rqs)) = commands (run ?pol' rqs)"
      by (cases "fst ?ev") (simp_all add: evaluate_fst)
    with Cons.prems have "c \<in> set (commands (run ?pol' rqs))" by simp
    from Cons.IH [of ?pol' t] this Cons.prems show ?thesis
      by (simp add: cfg same)
  next
    case cmd
    let ?c0 = "\<lparr>pump_id = ?q, action = toggled (state (pumps pol ?q)),
                       duration_seconds = None, issued_at = at_time rq\<rparr>"
    have cs: "commands (run pol (rq # rqs)) = ?c0 # commands (run ?pol' rqs)"
      by (simp add: evaluate_fst cmd(1))
    show ?thesis
    proof (cases "?q = p")
      case False
      then have "c \<noteq> ?c0" using Cons.prems(4) by auto
      with cs Cons.prems have mem: "c \<in> set (commands (run ?pol' rqs))" by simp
      have "pumps ?pol' p = pumps pol p" using False by (simp add: evaluate_pumps)
      with Cons.IH [of ?pol' t] mem Cons.prems show ?thesis by (simp add: cfg)
    next
      case True
      have el: "t + cooldown_seconds (config pol p) \<le> at_time rq"
        using cmd(2) Cons.prems(2) True by (simp add: cooldown_elapsed_def)
      show ?thesis
      proof (cases "c = ?c0")
        case True
        with el show ?thesis by simp
      next
        case False
        with cs Cons.prems have mem: "c \<in> set (commands (run ?pol' rqs))" by simp
        have "last_toggle (pumps ?pol' ?q) = Some (at_time rq)"
          by (simp add: evaluate_pumps cmd(1))
        then have lt: "last_toggle (pumps ?pol' p) = Some (at_time rq)"
          using \<open>?q = p\<close> by simp
        from Cons.IH [of ?pol' "at_time rq"] mem lt Cons.prems(1,4)
        have "at_time rq + cooldown_seconds (config pol p) \<le> issued_at c" by (simp add: cfg)
        with el Cons.prems(1) show ?thesis by linarith
      qed
    qed
  qed
qed

text \<open>Any two commands of a run are spaced, the earlier one first.\<close>

lemma commands_spaced: "sorted_wrt (spaced pol) (commands (run pol rqs))"
proof (induction rqs arbitrary: pol)
  case Nil
  then show ?case by simp
next
  case (Cons rq rqs)
  let ?q = "for_pump rq"
  let ?pol' = "snd (evaluate pol rq)"
  let ?ev = "evaluate_pump (config pol ?q) ?q (at_time rq) (reading rq) (forecast rq) (pumps pol ?q)"
  have cfg: "config ?pol' = config pol" by (rule evaluate_config)
  have sp: "spaced ?pol' = spaced pol"
    by (intro ext) (simp add: spaced_def cfg)
  have IH: "sorted_wrt (spaced pol) (commands (run ?pol' rqs))"
    using Cons.IH [of ?pol'] by (simp add: sp)
  show ?case
  proof (cases "fst (evaluate pol rq)")
    case (Command c0)
    then have ev: "fst ?ev = Command c0" by (simp add: evaluate_fst)
    with evaluate_pump_cases [of "config pol ?q" ?q "at_time rq" "reading rq" "forecast rq" "pumps pol ?q"]
    have c0: "c0 = \<lparr>pump_id = ?q, action = toggled (state (pumps pol ?q)),
                       duration_seconds = None, issued_at = at_time rq\<rparr>"
      and st: "snd ?ev = \<lparr>state = toggled (state (pumps pol ?q)), last_toggle = Some (at_time rq)\<rparr>"
      by auto
    have lt: "last_toggle (pumps ?pol' ?q) = Some (at_time rq)"
      by (simp add: evaluate_pumps st)
    have "spaced pol c0 c" if "c \<in> set (commands (run ?pol' rqs))" for c
      unfolding spaced_def
    proof
      assume a: "pump_id c0 = pump_id c \<and> 0 \<le> cooldown_seconds (config pol (pump_id c0))"
      then have pc: "pump_id c = ?q" by (simp add: c0)
      from a have "0 \<le> cooldown_seconds (config pol (pump_id c0))" by blast
      then have "0 \<le> cooldown_seconds (config pol ?q)" by (simp add: c0)
      then have nn: "0 \<le> cooldown_seconds (config ?pol' ?q)" by (simp add: cfg)
      from commands_after_last_toggle [OF nn lt that pc]
      show "issued_at c0 + cooldown_seconds (config pol (pump_id c0)) \<le> issued_at c"
        by (simp add: c0 cfg)
    qed
    with IH Command show ?thesis by simp
  next
    case NoOp
    with IH show ?thesis by simp
  next
    case Blocked
    with IH show ?thesis by simp
  qed
qed

lemma evaluate_blocked:
  assumes "change_needed (config pol (for_pump rq)) (pumps pol (for_pump rq)) (level (reading rq))"
    and "\<not> cooldown_elapsed (config pol (for_pump rq)) (pumps pol (for_pump rq)) (at_time rq)"
  shows "evaluate pol rq = (Blocked, pol)"
  using assms by (simp add: evaluate_def evaluate_pump_def)

text \<open>
  Claim C2. For every policy (any pumps, any configuration, any state to start from) and
  every sequence of evaluations (any pumps, readings and evaluation times, in any order):
  no two commands the run emits for the same pump are issued within
  \<open>cooldown_seconds\<close> of each other, that is, the distance of their issue times is
  never below the cooldown of the pump. And an evaluation that needs a transition while
  the cooldown has not elapsed ends \<open>blocked\<close>, without a command and without a change
  of the state.
\<close>

theorem cooldown_between_commands:
  "(\<forall>i j. i < j \<and> j < length (commands (run pol rqs))
        \<and> pump_id (commands (run pol rqs) ! i) = pump_id (commands (run pol rqs) ! j)
      \<longrightarrow> \<not> \<bar>issued_at (commands (run pol rqs) ! j) - issued_at (commands (run pol rqs) ! i)\<bar>
             < cooldown_seconds (config pol (pump_id (commands (run pol rqs) ! i))))
   \<and> (change_needed (config pol (for_pump rq)) (pumps pol (for_pump rq)) (level (reading rq))
        \<and> \<not> cooldown_elapsed (config pol (for_pump rq)) (pumps pol (for_pump rq)) (at_time rq)
      \<longrightarrow> evaluate pol rq = (Blocked, pol))"
proof (intro conjI allI impI)
  fix i j
  let ?cs = "commands (run pol rqs)"
  assume a: "i < j \<and> j < length ?cs \<and> pump_id (?cs ! i) = pump_id (?cs ! j)"
  then have "spaced pol (?cs ! i) (?cs ! j)"
    using commands_spaced [of pol rqs] by (simp add: sorted_wrt_iff_nth_less)
  with a show "\<not> \<bar>issued_at (?cs ! j) - issued_at (?cs ! i)\<bar>
             < cooldown_seconds (config pol (pump_id (?cs ! i)))"
    by (auto simp: spaced_def)
next
  assume "change_needed (config pol (for_pump rq)) (pumps pol (for_pump rq)) (level (reading rq))
        \<and> \<not> cooldown_elapsed (config pol (for_pump rq)) (pumps pol (for_pump rq)) (at_time rq)"
  then show "evaluate pol rq = (Blocked, pol)"
    by (simp add: evaluate_blocked)
qed

lemma run0: "run policy0 requests0 =
  [Command \<lparr>pump_id = ''pump_a'', action = ON, duration_seconds = None, issued_at = 0\<rparr>,
   Command \<lparr>pump_id = ''pump_b'', action = ON, duration_seconds = None, issued_at = 10\<rparr>,
   Blocked,
   Command \<lparr>pump_id = ''pump_a'', action = OFF, duration_seconds = None, issued_at = 70\<rparr>]"
  by (simp add: requests0_def policy0_def request0_def evaluate_def evaluate_pump_def
        change_needed_def cooldown_elapsed_def toggled_def)

theorem cooldown_between_commands_witness:
  "commands (run policy0 requests0) =
     [\<lparr>pump_id = ''pump_a'', action = ON, duration_seconds = None, issued_at = 0\<rparr>,
      \<lparr>pump_id = ''pump_b'', action = ON, duration_seconds = None, issued_at = 10\<rparr>,
      \<lparr>pump_id = ''pump_a'', action = OFF, duration_seconds = None, issued_at = 70\<rparr>]
   \<and> \<not> \<bar>issued_at (commands (run policy0 requests0) ! 2) - issued_at (commands (run policy0 requests0) ! 0)\<bar>
         < cooldown_seconds (config policy0 ''pump_a'')
   \<and> evaluate (snd (evaluate policy0 (request0 ''pump_a'' 0 30))) (request0 ''pump_a'' 30 90)
       = (Blocked, snd (evaluate policy0 (request0 ''pump_a'' 0 30)))"
proof -
  have cs: "commands (run policy0 requests0) =
     [\<lparr>pump_id = ''pump_a'', action = ON, duration_seconds = None, issued_at = 0\<rparr>,
      \<lparr>pump_id = ''pump_b'', action = ON, duration_seconds = None, issued_at = 10\<rparr>,
      \<lparr>pump_id = ''pump_a'', action = OFF, duration_seconds = None, issued_at = 70\<rparr>]"
    by (simp add: run0)
  let ?pol1 = "snd (evaluate policy0 (request0 ''pump_a'' 0 30))"
  have st: "pumps ?pol1 ''pump_a'' = \<lparr>state = ON, last_toggle = Some 0\<rparr>"
    and cf: "config ?pol1 ''pump_a'' = \<lparr>low_threshold = 40, high_threshold = 80, cooldown_seconds = 60\<rparr>"
    by (simp_all add: policy0_def request0_def evaluate_def evaluate_pump_def
        change_needed_def cooldown_elapsed_def toggled_def)
  have need: "change_needed (config ?pol1 (for_pump (request0 ''pump_a'' 30 90)))
                (pumps ?pol1 (for_pump (request0 ''pump_a'' 30 90)))
                (level (reading (request0 ''pump_a'' 30 90)))
              \<and> \<not> cooldown_elapsed (config ?pol1 (for_pump (request0 ''pump_a'' 30 90)))
                (pumps ?pol1 (for_pump (request0 ''pump_a'' 30 90))) (at_time (request0 ''pump_a'' 30 90))"
    by (simp add: request0_def [of _ 30] st cf change_needed_def cooldown_elapsed_def)
  have idx: "(0::nat) < 2 \<and> 2 < length (commands (run policy0 requests0))
        \<and> pump_id (commands (run policy0 requests0) ! 0) = pump_id (commands (run policy0 requests0) ! 2)"
    by (simp add: cs)
  from cooldown_between_commands [of policy0 requests0 "request0 ''pump_a'' 30 90"] idx
  have far: "\<not> \<bar>issued_at (commands (run policy0 requests0) ! 2) - issued_at (commands (run policy0 requests0) ! 0)\<bar>
         < cooldown_seconds (config policy0 (pump_id (commands (run policy0 requests0) ! 0)))"
    by blast
  from cooldown_between_commands [of ?pol1 "[]" "request0 ''pump_a'' 30 90"] need
  have "evaluate ?pol1 (request0 ''pump_a'' 30 90) = (Blocked, ?pol1)"
    by blast
  with far cs show ?thesis by simp
qed

section \<open>Properties of ControlPolicy: the hysteresis band\<close>












end
